theory Spec2Isabelle
  imports Complex_Main
begin

section \<open>Double-precision values\<close>

text \<open>
  The program computes with C++ \<^verbatim>\<open>double\<close>. A value is a finite number, negative zero,
  an infinity or a NaN. \<open>Fin 0\<close> is positive zero and \<open>NZero\<close> is negative zero; every
  other finite value is \<open>Fin x\<close> with \<open>x \<noteq> 0\<close>.

  The special cases of every operation (signed zeros, infinities, NaN, division by
  zero, logarithm and square root outside their domain) follow IEEE 754 and Annex F of
  the C standard in round-to-nearest mode. On finite operands away from these cases an
  arithmetic operation returns the exact real result: rounding to 53 significant bits
  is not part of this model, and neither are overflow and underflow of a sum, a product
  or a quotient. The functions of the library that can leave the range of the format,
  \<^verbatim>\<open>exp\<close> and \<^verbatim>\<open>pow\<close>, do overflow and underflow.
\<close>

datatype double = Fin real | NZero | PInf | NInf | NaN

fun signbit :: "double \<Rightarrow> bool" where
  "signbit (Fin x) = (x < 0)"
| "signbit NZero = True"
| "signbit PInf = False"
| "signbit NInf = True"
| "signbit NaN = False"

fun is_zero :: "double \<Rightarrow> bool" where
  "is_zero (Fin x) = (x = 0)"
| "is_zero NZero = True"
| "is_zero PInf = False"
| "is_zero NInf = False"
| "is_zero NaN = False"

fun is_inf :: "double \<Rightarrow> bool" where
  "is_inf (Fin x) = False"
| "is_inf NZero = False"
| "is_inf PInf = True"
| "is_inf NInf = True"
| "is_inf NaN = False"

fun is_finite :: "double \<Rightarrow> bool" where
  "is_finite (Fin x) = True"
| "is_finite NZero = True"
| "is_finite PInf = False"
| "is_finite NInf = False"
| "is_finite NaN = False"

fun real_of :: "double \<Rightarrow> real" where
  "real_of (Fin x) = x"
| "real_of NZero = 0"
| "real_of PInf = 0"
| "real_of NInf = 0"
| "real_of NaN = 0"

definition zero_of :: "bool \<Rightarrow> double" where
  "zero_of neg = (if neg then NZero else Fin 0)"

definition inf_of :: "bool \<Rightarrow> double" where
  "inf_of neg = (if neg then NInf else PInf)"

subsection \<open>Arithmetic\<close>

text \<open>Unary minus flips the sign, also of a zero and of an infinity.\<close>

fun d_neg :: "double \<Rightarrow> double" where
  "d_neg (Fin x) = (if x = 0 then NZero else Fin (- x))"
| "d_neg NZero = Fin 0"
| "d_neg PInf = NInf"
| "d_neg NInf = PInf"
| "d_neg NaN = NaN"

text \<open>
  Addition: a NaN operand gives NaN, and so do infinities of opposite sign. A sum of
  two zeros is negative only if both are; an exact sum \<open>x + (- x)\<close> of nonzero numbers
  is positive zero.
\<close>

fun d_add :: "double \<Rightarrow> double \<Rightarrow> double" where
  "d_add NaN b = NaN"
| "d_add a NaN = NaN"
| "d_add PInf NInf = NaN"
| "d_add NInf PInf = NaN"
| "d_add PInf b = PInf"
| "d_add a PInf = PInf"
| "d_add NInf b = NInf"
| "d_add a NInf = NInf"
| "d_add NZero b = b"
| "d_add a NZero = a"
| "d_add (Fin x) (Fin y) = Fin (x + y)"

definition d_sub :: "double \<Rightarrow> double \<Rightarrow> double" where
  "d_sub a b = d_add a (d_neg b)"

text \<open>
  Multiplication and division: the sign of the result is the exclusive or of the signs
  of the operands. \<open>0 * \<infinity>\<close>, \<open>0 / 0\<close> and \<open>\<infinity> / \<infinity>\<close> are NaN; a nonzero number
  divided by a zero is an infinity, and no error is raised.
\<close>

definition d_mul :: "double \<Rightarrow> double \<Rightarrow> double" where
  "d_mul a b =
     (if a = NaN \<or> b = NaN then NaN
      else if (is_inf a \<and> is_zero b) \<or> (is_zero a \<and> is_inf b) then NaN
      else if is_inf a \<or> is_inf b then inf_of (signbit a \<noteq> signbit b)
      else if is_zero a \<or> is_zero b then zero_of (signbit a \<noteq> signbit b)
      else Fin (real_of a * real_of b))"

definition d_div :: "double \<Rightarrow> double \<Rightarrow> double" where
  "d_div a b =
     (if a = NaN \<or> b = NaN then NaN
      else if (is_inf a \<and> is_inf b) \<or> (is_zero a \<and> is_zero b) then NaN
      else if is_inf a \<or> is_zero b then inf_of (signbit a \<noteq> signbit b)
      else if is_zero a \<or> is_inf b then zero_of (signbit a \<noteq> signbit b)
      else Fin (real_of a / real_of b))"

subsection \<open>The functions of \<^verbatim>\<open><cmath>\<close> that the program calls\<close>

text \<open>\<^verbatim>\<open>sqrt\<close>: NaN below zero, and \<^verbatim>\<open>sqrt(-0.0)\<close> is \<^verbatim>\<open>-0.0\<close>.\<close>

fun d_sqrt :: "double \<Rightarrow> double" where
  "d_sqrt (Fin x) = (if x < 0 then NaN else Fin (sqrt x))"
| "d_sqrt NZero = NZero"
| "d_sqrt PInf = PInf"
| "d_sqrt NInf = NaN"
| "d_sqrt NaN = NaN"

text \<open>
  \<^verbatim>\<open>log\<close>: NaN below zero and minus infinity at either zero. HOL's \<open>ln\<close> is total
  (\<open>ln 0 = 0\<close>, \<open>ln (- x) = ln x\<close>), so both cases are decided before it is called.
\<close>

fun d_log :: "double \<Rightarrow> double" where
  "d_log (Fin x) = (if x < 0 then NaN else if x = 0 then NInf else Fin (ln x))"
| "d_log NZero = NInf"
| "d_log PInf = PInf"
| "d_log NInf = NaN"
| "d_log NaN = NaN"

text \<open>
  \<^verbatim>\<open>exp\<close>: the result is \<open>+\<infinity>\<close> where it rounds beyond the largest finite double
  (\<open>2 ^ 1024 - 2 ^ 970\<close> is halfway between that double and \<open>2 ^ 1024\<close>), and \<open>+0\<close> where it
  is at most half of the smallest positive double \<open>2 ^ - 1074\<close>. At the library's
  \<^verbatim>\<open>exp(720.0)\<close> the first case applies and at \<^verbatim>\<open>exp(-720.0)\<close> neither does.
\<close>

fun d_exp :: "double \<Rightarrow> double" where
  "d_exp (Fin x) =
     (if 2 ^ 1024 - 2 ^ 970 \<le> exp x then PInf
      else if exp x \<le> 1 / 2 ^ 1075 then Fin 0
      else Fin (exp x))"
| "d_exp NZero = Fin 1"
| "d_exp PInf = PInf"
| "d_exp NInf = Fin 0"
| "d_exp NaN = NaN"

text \<open>
  \<^verbatim>\<open>pow(x, 2.0)\<close>, the only use of \<^verbatim>\<open>pow\<close> in the program: the exponent is an even
  integer, so the result is the square, also for a negative \<open>x\<close>, and it is never
  negative. It overflows to \<open>+\<infinity>\<close> and underflows to \<open>+0\<close> where \<^verbatim>\<open>exp\<close> does.
\<close>

fun d_pow_2 :: "double \<Rightarrow> double" where
  "d_pow_2 (Fin x) =
     (if 2 ^ 1024 - 2 ^ 970 \<le> x ^ 2 then PInf
      else if x ^ 2 \<le> 1 / 2 ^ 1075 then Fin 0
      else Fin (x ^ 2))"
| "d_pow_2 NZero = Fin 0"
| "d_pow_2 PInf = PInf"
| "d_pow_2 NInf = PInf"
| "d_pow_2 NaN = NaN"

text \<open>
  The error function on the reals. The comment in the source gives it as
  \<^verbatim>\<open>erf(x) = 2 / sqrt(pi) * integral(0, x) { exp(-t^2) dt }\<close>; integrating the
  exponential series term by term gives the Maclaurin series
  \<open>erf x = 2 / \<surd>\<pi> * (x - x\<^sup>3 / 3 + x\<^sup>5 / 10 - x\<^sup>7 / 42 + \<dots>)\<close>, which defines it here.
  Below, \<open>DERIV_erf\<close> and \<open>erf_0\<close> show that this is the integral of the comment.
\<close>

definition erf_coeff :: "nat \<Rightarrow> real" where
  "erf_coeff n = (- 1) ^ n / (fact n * of_nat (2 * n + 1))"

definition erf_series :: "real \<Rightarrow> real" where
  "erf_series x = (\<Sum>n. erf_coeff n * x ^ (2 * n + 1))"

definition erf :: "real \<Rightarrow> real" where
  "erf x = 2 / sqrt pi * erf_series x"

text \<open>\<^verbatim>\<open>erf\<close> of \<^verbatim>\<open><cmath>\<close>: \<open>\<plusminus>1\<close> at the infinities, and a zero keeps its sign.\<close>

fun d_erf :: "double \<Rightarrow> double" where
  "d_erf (Fin x) = Fin (erf x)"
| "d_erf NZero = NZero"
| "d_erf PInf = Fin 1"
| "d_erf NInf = Fin (- 1)"
| "d_erf NaN = NaN"

text \<open>
  The macro \<^verbatim>\<open>M_SQRT1_2\<close> of \<^verbatim>\<open><cmath>\<close> is the literal \<^verbatim>\<open>0.70710678118654752440\<close>. It
  denotes the double nearest to \<open>1 / \<surd>2\<close>, which is \<^verbatim>\<open>0x1.6a09e667f3bcdp-1\<close>, that is
  \<open>6369051672525773 / 2 ^ 53\<close>.
\<close>

definition M_SQRT1_2 :: double where
  "M_SQRT1_2 = Fin (6369051672525773 / 9007199254740992)"

section \<open>The pricing functions\<close>

text \<open>
  \<^verbatim>\<open>return 0.5 * (1 + erf(value * M_SQRT1_2));\<close>
\<close>

definition cdf_normal_distribution :: "double \<Rightarrow> double" where
  "cdf_normal_distribution x =
     d_mul (Fin (1 / 2)) (d_add (Fin 1) (d_erf (d_mul x M_SQRT1_2)))"

text \<open>
  The third parameter is named \<^verbatim>\<open>days_to_expiration\<close> in the source, but the caller has
  already divided it by 365: it is the time to expiration in years. The product
  \<^verbatim>\<open>cdf(d2) * strike_price * exp(...)\<close> associates to the left, and
  \<^verbatim>\<open>-risk_free_rate * days_to_expiration\<close> negates the rate before it multiplies.
\<close>

definition calculate_call_price ::
  "double \<Rightarrow> double \<Rightarrow> double \<Rightarrow> double \<Rightarrow> double \<Rightarrow> double" where
  "calculate_call_price stock_price strike_price days_to_expiration volatility risk_free_rate =
     (let d1 = d_div
                 (d_add (d_log (d_div stock_price strike_price))
                        (d_mul (d_add risk_free_rate (d_div (d_pow_2 volatility) (Fin 2)))
                               days_to_expiration))
                 (d_mul volatility (d_sqrt days_to_expiration));
          d2 = d_sub d1 (d_mul volatility (d_sqrt days_to_expiration))
      in d_sub (d_mul (cdf_normal_distribution d1) stock_price)
               (d_mul (d_mul (cdf_normal_distribution d2) strike_price)
                      (d_exp (d_mul (d_neg risk_free_rate) days_to_expiration))))"

definition calculate_put_price ::
  "double \<Rightarrow> double \<Rightarrow> double \<Rightarrow> double \<Rightarrow> double \<Rightarrow> double" where
  "calculate_put_price stock_price strike_price days_to_expiration volatility risk_free_rate =
     d_sub (d_add (calculate_call_price stock_price strike_price days_to_expiration
                     volatility risk_free_rate)
                  (d_div strike_price (d_exp (d_mul risk_free_rate days_to_expiration))))
           stock_price"

text \<open>
  The value that \<open>calculate_call_price\<close> gives to its local variable \<^verbatim>\<open>d1\<close>.
\<close>

definition call_d1 :: "double \<Rightarrow> double \<Rightarrow> double \<Rightarrow> double \<Rightarrow> double \<Rightarrow> double" where
  "call_d1 stock_price strike_price days_to_expiration volatility risk_free_rate =
     d_div
       (d_add (d_log (d_div stock_price strike_price))
              (d_mul (d_add risk_free_rate (d_div (d_pow_2 volatility) (Fin 2)))
                     days_to_expiration))
       (d_mul volatility (d_sqrt days_to_expiration))"

section \<open>The program\<close>

text \<open>
  What the process writes, in the order of the writes. A \<^verbatim>\<open>double\<close> inserted into a
  stream is recorded with the precision and the \<^verbatim>\<open>fixed\<close> flag the stream has at that
  moment, which determine its digits.
\<close>

datatype item = Text string | Num nat bool double | Endl

datatype event = Cout item | Cerr item

record process =
  events :: "event list"
  cout_precision :: nat
  cout_fixed :: bool

text \<open>A fresh \<^verbatim>\<open>cout\<close> has precision 6 and no \<^verbatim>\<open>fixed\<close> flag.\<close>

definition start :: process where
  "start = \<lparr>events = [], cout_precision = 6, cout_fixed = False\<rparr>"

definition cout_text :: "string \<Rightarrow> process \<Rightarrow> process" where
  "cout_text s p = p\<lparr>events := events p @ [Cout (Text s)]\<rparr>"

definition cout_double :: "double \<Rightarrow> process \<Rightarrow> process" where
  "cout_double d p = p\<lparr>events := events p @ [Cout (Num (cout_precision p) (cout_fixed p) d)]\<rparr>"

definition cout_endl :: "process \<Rightarrow> process" where
  "cout_endl p = p\<lparr>events := events p @ [Cout Endl]\<rparr>"

definition cerr_text :: "string \<Rightarrow> process \<Rightarrow> process" where
  "cerr_text s p = p\<lparr>events := events p @ [Cerr (Text s)]\<rparr>"

definition cerr_endl :: "process \<Rightarrow> process" where
  "cerr_endl p = p\<lparr>events := events p @ [Cerr Endl]\<rparr>"

definition set_precision :: "nat \<Rightarrow> process \<Rightarrow> process" where
  "set_precision n p = p\<lparr>cout_precision := n\<rparr>"

definition set_fixed :: "process \<Rightarrow> process" where
  "set_fixed p = p\<lparr>cout_fixed := True\<rparr>"

text \<open>Statements run one after the other.\<close>

definition run :: "(process \<Rightarrow> process) list \<Rightarrow> process \<Rightarrow> process" where
  "run stmts p = fold (\<lambda>stmt q. stmt q) stmts p"

text \<open>
  \<^verbatim>\<open>main\<close> returns the exit status and the final state of the process. \<open>argv\<close> holds the
  program name and the arguments, and \<^verbatim>\<open>argc\<close> is its length. \<^verbatim>\<open>exit(1)\<close> ends the
  process at once, so nothing after it runs. \<^verbatim>\<open>strtod\<close> belongs to the C library and
  is a parameter.
\<close>

definition main :: "(string \<Rightarrow> double) \<Rightarrow> string list \<Rightarrow> int \<times> process" where
  "main strtod argv =
     (let argc = int (length argv);
          p = run [cout_text ''Options pricing calculator based on the Black-Scholes Model.'',
                   cout_endl] start
      in if argc \<noteq> 6
         then (1, run [cerr_text ''Error: Input [Stock Price ($)] [Strike Price ($)] [Days to Expiration (days)] [Volatility (%)] [Risk-Free Rate of Interest (%)]'',
                       cerr_endl] p)
         else
           let p = cout_endl p;
               stock_price = strtod (argv ! 1);
               strike_price = strtod (argv ! 2);
               days_to_expiration = strtod (argv ! 3);
               volatility = strtod (argv ! 4);
               risk_free_rate = strtod (argv ! 5);
               p = run [cout_text ''Stock Price: $'', cout_double stock_price, cout_endl,
                        cout_text ''Strike Price: $'', cout_double strike_price, cout_endl,
                        cout_text ''Days to Expiration: '', cout_double days_to_expiration,
                        cout_text '' days'', cout_endl,
                        cout_text ''Volatility: '', cout_double volatility,
                        cout_text ''%'', cout_endl,
                        cout_text ''Risk-Free Rate of Interest: '', cout_double risk_free_rate,
                        cout_text ''%'', cout_endl,
                        cout_endl] p;
               days_to_expiration = d_div days_to_expiration (Fin 365);
               volatility = d_div volatility (Fin 100);
               risk_free_rate = d_div risk_free_rate (Fin 100);
               p = run [set_precision 2,
                        set_fixed,
                        cout_text ''Call Option Value: $'',
                        cout_double (calculate_call_price stock_price strike_price
                                       days_to_expiration volatility risk_free_rate),
                        cout_endl,
                        cout_text ''Put Option Value: $'',
                        cout_double (calculate_put_price stock_price strike_price
                                       days_to_expiration volatility risk_free_rate),
                        cout_endl] p
           in (0, p))"

text \<open>
  \<^verbatim>\<open>strtod\<close> on a string of decimal digits: the number they denote. It stands for the
  library function where a concrete one is needed.
\<close>

definition is_digit :: "char \<Rightarrow> bool" where
  "is_digit c = (48 \<le> (of_char c :: nat) \<and> (of_char c :: nat) \<le> 57)"

definition strtod_digits :: "string \<Rightarrow> double" where
  "strtod_digits s =
     Fin (of_nat (fold (\<lambda>c n. 10 * n + (of_char c - 48)) (takeWhile is_digit s) 0))"

section \<open>The formulas of the specification\<close>




section \<open>A function for the analysis of the error function\<close>

text \<open>
  The series of \<open>erf\<close> is \<open>x\<close> times a power series in \<open>x\<^sup>2\<close>.
\<close>

definition erf_aux :: "real \<Rightarrow> real" where
  "erf_aux u = (\<Sum>n. erf_coeff n * u ^ n)"

section \<open>The error function\<close>

subsection \<open>The series converges everywhere, and its derivative is \<open>exp (- x\<^sup>2)\<close>\<close>

lemma abs_erf_coeff_le: "\<bar>erf_coeff n\<bar> \<le> inverse (fact n)"
proof -
  have "\<bar>erf_coeff n\<bar> = inverse (fact n) * inverse (of_nat (2 * n + 1))"
    by (simp add: erf_coeff_def abs_mult power_abs divide_inverse del: of_nat_Suc of_nat_add)
  also have "\<dots> \<le> inverse (fact n) * 1"
    by (intro mult_left_mono) (simp_all add: inverse_le_1_iff)
  finally show ?thesis by simp
qed

lemma summable_erf_aux: "summable (\<lambda>n. erf_coeff n * u ^ n)"
proof (rule summable_comparison_test')
  show "summable (\<lambda>n. inverse (fact n) * \<bar>u\<bar> ^ n)"
    by (rule summable_exp)
  show "norm (erf_coeff n * u ^ n) \<le> inverse (fact n) * \<bar>u\<bar> ^ n" for n
    using abs_erf_coeff_le [of n]
    by (simp add: abs_mult power_abs mult_right_mono)
qed

lemma erf_series_aux: "erf_series x = x * erf_aux (x\<^sup>2)"
proof -
  have "erf_series x = (\<Sum>n. x * (erf_coeff n * (x\<^sup>2) ^ n))"
    unfolding erf_series_def by (simp add: power_mult [symmetric] mult_ac)
  also have "\<dots> = x * erf_aux (x\<^sup>2)"
    unfolding erf_aux_def by (rule suminf_mult) (rule summable_erf_aux)
  finally show ?thesis .
qed

lemma DERIV_erf_aux: "DERIV erf_aux u :> (\<Sum>n. diffs erf_coeff n * u ^ n)"
  unfolding erf_aux_def [abs_def]
  by (rule termdiffs_strong_converges_everywhere) (rule summable_erf_aux)

lemma erf_aux_ode: "erf_aux u + 2 * u * (\<Sum>n. diffs erf_coeff n * u ^ n) = exp (- u)"
proof -
  have sm: "summable (\<lambda>n. diffs erf_coeff n * u ^ n)"
    by (rule termdiff_converges_all) (rule summable_erf_aux)
  have s1: "(\<lambda>n. of_nat n * erf_coeff n * u ^ (n - Suc 0)) sums (\<Sum>n. diffs erf_coeff n * u ^ n)"
    by (rule diffs_equiv) (rule sm)
  have "(\<lambda>n. 2 * u * (of_nat n * erf_coeff n * u ^ (n - Suc 0))) sums (2 * u * (\<Sum>n. diffs erf_coeff n * u ^ n))"
    by (rule sums_mult) (rule s1)
  moreover have "(\<lambda>n. erf_coeff n * u ^ n) sums erf_aux u"
    unfolding erf_aux_def by (rule summable_sums) (rule summable_erf_aux)
  ultimately have "(\<lambda>n. erf_coeff n * u ^ n + 2 * u * (of_nat n * erf_coeff n * u ^ (n - Suc 0)))
      sums (erf_aux u + 2 * u * (\<Sum>n. diffs erf_coeff n * u ^ n))"
    by (rule sums_add [rotated])
  moreover have "erf_coeff n * u ^ n + 2 * u * (of_nat n * erf_coeff n * u ^ (n - Suc 0)) = (- u) ^ n /\<^sub>R fact n" for n
  proof (cases n)
    case 0
    then show ?thesis by (simp add: erf_coeff_def)
  next
    case (Suc m)
    have "erf_coeff n * u ^ n + 2 * u * (of_nat n * erf_coeff n * u ^ (n - Suc 0)) =
          (1 + 2 * of_nat n) * erf_coeff n * u ^ n"
      unfolding Suc by (simp add: algebra_simps)
    also have "(1 + 2 * of_nat n) * erf_coeff n = (- 1) ^ n / fact n"
    proof -
      have "1 + 2 * real n \<noteq> 0"
        using of_nat_0_le_iff [of n, where 'a = real] by linarith
      then show ?thesis
        by (simp add: erf_coeff_def add.commute)
    qed
    also have "(- 1) ^ n / fact n * u ^ n = (- u) ^ n /\<^sub>R fact n"
      by (simp add: power_minus [of u] divide_inverse mult_ac)
    finally show ?thesis .
  qed
  ultimately have "(\<lambda>n. (- u) ^ n /\<^sub>R fact n) sums (erf_aux u + 2 * u * (\<Sum>n. diffs erf_coeff n * u ^ n))"
    by simp
  moreover have "(\<lambda>n. (- u) ^ n /\<^sub>R fact n) sums exp (- u)"
    by (rule exp_converges)
  ultimately show ?thesis
    by (rule sums_unique2)
qed

lemma DERIV_erf_series: "DERIV erf_series x :> exp (- x\<^sup>2)"
proof -
  have "DERIV (\<lambda>x. x * erf_aux (x\<^sup>2)) x :>
          1 * erf_aux (x\<^sup>2) + ((\<Sum>n. diffs erf_coeff n * (x\<^sup>2) ^ n) * (2 * x)) * x"
    by (rule derivative_eq_intros DERIV_chain2 [OF DERIV_erf_aux] refl)+ simp
  also have "1 * erf_aux (x\<^sup>2) + ((\<Sum>n. diffs erf_coeff n * (x\<^sup>2) ^ n) * (2 * x)) * x = exp (- x\<^sup>2)"
    using erf_aux_ode [of "x\<^sup>2"] by (simp add: power2_eq_square mult_ac)
  finally show ?thesis
    by (simp add: erf_series_aux [abs_def])
qed

subsection \<open>Properties of \<open>erf\<close>\<close>

lemma erf_series_0 [simp]: "erf_series 0 = 0"
  by (simp add: erf_series_aux)

lemma erf_series_minus: "erf_series (- x) = - erf_series x"
  by (simp add: erf_series_aux)


lemma erf_0 [simp]: "erf 0 = 0"
  by (simp add: erf_def)

lemma DERIV_erf: "DERIV erf x :> 2 / sqrt pi * exp (- x\<^sup>2)"
  unfolding erf_def [abs_def] by (rule DERIV_cmult) (rule DERIV_erf_series)

lemma erf_minus [simp]: "erf (- x) = - erf x"
  by (simp add: erf_def erf_series_minus)



section \<open>Arithmetic on special and finite values\<close>

declare d_exp.simps(1) [simp del] d_pow_2.simps(1) [simp del]

lemmas io_defs = run_def cout_text_def cout_double_def cout_endl_def cerr_text_def
  cerr_endl_def set_precision_def set_fixed_def start_def

lemma d_mul_Fin_pos: "0 < y \<Longrightarrow> d_mul (Fin x) (Fin y) = Fin (x * y)"
  by (simp add: d_mul_def zero_of_def)

lemma d_div_Fin_pos: "0 < y \<Longrightarrow> d_div (Fin x) (Fin y) = Fin (x / y)"
  by (simp add: d_div_def zero_of_def)

lemma d_mul_d_neg: "d_mul (d_neg r) t = d_neg (d_mul r t)"
  by (cases r; cases t) (auto simp: d_mul_def zero_of_def inf_of_def)

lemma d_mul_one: "d_mul (Fin 1) a = a"
  by (cases a) (auto simp: d_mul_def zero_of_def inf_of_def)

lemma d_mul_by_one: "d_mul a (Fin 1) = a"
  by (cases a) (auto simp: d_mul_def zero_of_def inf_of_def)

lemma d_div_by_one: "d_div a (Fin 1) = a"
  by (cases a) (auto simp: d_div_def zero_of_def inf_of_def)

lemma is_zero_d_neg: "is_zero (d_neg a) = is_zero a"
  by (cases a) auto

lemma is_finite_d_neg: "is_finite a \<Longrightarrow> is_finite (d_neg a)"
  by (cases a) auto

lemma is_finite_d_add: "is_finite a \<Longrightarrow> is_finite b \<Longrightarrow> is_finite (d_add a b)"
  by (cases a; cases b) auto

lemma is_finite_d_sub: "is_finite a \<Longrightarrow> is_finite b \<Longrightarrow> is_finite (d_sub a b)"
  by (simp add: d_sub_def is_finite_d_add is_finite_d_neg)

lemma is_finite_d_mul: "is_finite a \<Longrightarrow> is_finite b \<Longrightarrow> is_finite (d_mul a b)"
  by (cases a; cases b) (auto simp: d_mul_def zero_of_def)

text \<open>A NaN operand gives NaN.\<close>

lemma d_add_NaN [simp]: "d_add a NaN = NaN"
  by (cases a) simp_all

lemma d_sub_NaN [simp]: "d_sub NaN b = NaN"
  by (simp add: d_sub_def)

lemma d_mul_NaN [simp]: "d_mul NaN b = NaN" "d_mul a NaN = NaN"
  by (simp_all add: d_mul_def)

lemma d_div_NaN [simp]: "d_div NaN b = NaN" "d_div a NaN = NaN"
  by (simp_all add: d_div_def)

text \<open>A quotient with a zero or a NaN divisor is never finite.\<close>

lemma d_div_zero_divisor: "is_zero b \<or> b = NaN \<Longrightarrow> \<not> is_finite (d_div a b)"
  by (cases a; cases b) (auto simp: d_div_def inf_of_def)

text \<open>An infinite quotient has a divisor that is neither infinite nor NaN.\<close>

lemma d_div_infinite:
  "d_div a b = PInf \<or> d_div a b = NInf \<Longrightarrow> b \<noteq> NaN \<and> b \<noteq> PInf \<and> b \<noteq> NInf"
  by (cases a; cases b) (auto simp: d_div_def zero_of_def inf_of_def split: if_splits)

lemma d_sub_from_infinity:
  assumes "b \<noteq> NaN" "b \<noteq> PInf" "b \<noteq> NInf"
  shows "d_sub PInf b = PInf" "d_sub NInf b = NInf"
  using assms by (cases b; simp add: d_sub_def)+

subsection \<open>The exponential function\<close>

lemma d_exp_zero: "is_zero v \<Longrightarrow> d_exp v = Fin 1"
  by (cases v) (simp_all add: d_exp.simps(1))

lemma d_exp_unit:
  assumes "\<bar>x\<bar> \<le> 1"
  shows "d_exp (Fin x) = Fin (exp x)"
proof -
  have "exp x \<le> exp 1"
    using assms by simp
  then have up: "exp x \<le> 3"
    using exp_le by linarith
  have "exp (- x) \<le> exp 1"
    using assms by simp
  then have "exp (- x) \<le> 3"
    using exp_le by linarith
  then have "1 / 3 \<le> exp x"
    using exp_gt_zero [of x] by (simp add: exp_minus inverse_eq_divide field_simps)
  then have low: "\<not> exp x \<le> 1 / 2 ^ 1075"
    by simp
  have "(3 :: real) < 2 ^ 1024 - 2 ^ 970"
    by simp
  with up have "\<not> 2 ^ 1024 - 2 ^ 970 \<le> exp x"
    by linarith
  with low show ?thesis
    by (simp add: d_exp.simps(1))
qed

text \<open>
  \<open>exp 720\<close> lies between \<open>2 ^ 1024\<close> and \<open>2 ^ 1075\<close>, since \<open>exp (7 / 10) \<ge> 2\<close> and
  \<open>exp (27 / 40) \<le> 2\<close>.
\<close>

lemma two_le_exp: "2 \<le> exp (7 / 10 :: real)"
proof -
  have "1 + 7 / 40 + (7 / 40)\<^sup>2 / 2 \<le> exp (7 / 40 :: real)"
    by (rule exp_lower_Taylor_quadratic) simp
  then have "(1 + 7 / 40 + (7 / 40)\<^sup>2 / 2) ^ 4 \<le> exp (7 / 40 :: real) ^ 4"
    by (intro power_mono) simp_all
  also have "exp (7 / 40 :: real) ^ 4 = exp (of_nat 4 * (7 / 40))"
    by (rule exp_of_nat_mult [symmetric])
  finally show ?thesis
    by (simp add: power2_eq_square power4_eq_xxxx)
qed

lemma exp_le_two: "exp (27 / 40 :: real) \<le> 2"
proof -
  have "1 + - (27 / 640) \<le> exp (- (27 / 640) :: real)"
    by (rule exp_ge_add_one_self)
  then have "exp (27 / 640 :: real) \<le> 640 / 613"
    using exp_gt_zero [of "27 / 640 :: real"]
    by (simp add: exp_minus inverse_eq_divide field_simps)
  then have "exp (27 / 640 :: real) ^ 16 \<le> (640 / 613) ^ 16"
    by (intro power_mono) simp_all
  moreover have "exp (27 / 640 :: real) ^ 16 = exp (of_nat 16 * (27 / 640))"
    by (rule exp_of_nat_mult [symmetric])
  ultimately have "exp (27 / 40 :: real) \<le> (640 / 613) ^ 16"
    by simp
  also have "(640 / 613 :: real) ^ 16 \<le> 2"
    by (simp add: power_divide)
  finally show ?thesis .
qed

lemma exp_720_lower: "(2 :: real) ^ 1024 \<le> exp 720"
proof -
  have "(2 :: real) ^ 1024 \<le> exp (7 / 10) ^ 1024"
    by (intro power_mono two_le_exp) simp
  also have "exp (7 / 10 :: real) ^ 1024 = exp (of_nat 1024 * (7 / 10))"
    by (rule exp_of_nat_mult [symmetric])
  also have "\<dots> \<le> exp 720"
    by simp
  finally show ?thesis .
qed

lemma exp_720_upper: "exp 720 < (2 :: real) ^ 1075"
proof -
  have "exp (720 :: real) < exp (of_nat 1075 * (27 / 40))"
    by simp
  also have "\<dots> = exp (27 / 40) ^ 1075"
    by (rule exp_of_nat_mult)
  also have "\<dots> \<le> 2 ^ 1075"
    by (intro power_mono exp_le_two) simp
  finally show ?thesis .
qed

lemma d_exp_720: "d_exp (Fin 720) = PInf"
proof -
  have "(2 :: real) ^ 1024 - 2 ^ 970 \<le> 2 ^ 1024"
    by simp
  then have "(2 :: real) ^ 1024 - 2 ^ 970 \<le> exp 720"
    using exp_720_lower by (rule order_trans)
  then show ?thesis
    by (simp add: d_exp.simps(1))
qed

lemma d_exp_minus_720: "d_exp (Fin (- 720)) = Fin (exp (- 720))"
proof -
  have "1 / 2 ^ 1075 < 1 / exp (720 :: real)"
    using exp_720_upper by (intro divide_strict_left_mono) simp_all
  then have low: "\<not> exp (- 720 :: real) \<le> 1 / 2 ^ 1075"
    by (simp add: exp_minus inverse_eq_divide)
  have "exp (- 720 :: real) \<le> 1" "(1 :: real) < 2 ^ 1024 - 2 ^ 970"
    by simp_all
  then have "\<not> 2 ^ 1024 - 2 ^ 970 \<le> exp (- 720 :: real)"
    by linarith
  with low show ?thesis
    by (simp add: d_exp.simps(1))
qed

lemma d_pow_2_fifth: "d_pow_2 (Fin (1 / 5)) = Fin (1 / 25)"
  by (simp add: d_pow_2.simps(1) power2_eq_square)

subsection \<open>The distribution function\<close>

lemma cdf_Fin:
  "cdf_normal_distribution (Fin x) =
     Fin (1 / 2 * (1 + erf (x * (6369051672525773 / 9007199254740992))))"
  by (simp add: cdf_normal_distribution_def M_SQRT1_2_def d_mul_def zero_of_def)

lemma cdf_special:
  "cdf_normal_distribution PInf = Fin 1"
  "cdf_normal_distribution NInf = Fin 0"
  "cdf_normal_distribution NaN = NaN"
  by (simp_all add: cdf_normal_distribution_def M_SQRT1_2_def d_mul_def inf_of_def zero_of_def)

lemma cdf_finite:
  "is_finite v \<Longrightarrow>
   cdf_normal_distribution v =
     Fin (1 / 2 * (1 + erf (real_of v * (6369051672525773 / 9007199254740992))))"
  by (cases v)
     (simp_all add: cdf_normal_distribution_def M_SQRT1_2_def d_mul_def zero_of_def)

lemma real_of_d_neg: "real_of (d_neg v) = - real_of v"
  by (cases v) simp_all

subsection \<open>The call price in terms of \<open>d1\<close>\<close>

lemma call_price_d1:
  "calculate_call_price S K T \<sigma> r =
     d_sub (d_mul (cdf_normal_distribution (call_d1 S K T \<sigma> r)) S)
           (d_mul (d_mul (cdf_normal_distribution
                            (d_sub (call_d1 S K T \<sigma> r) (d_mul \<sigma> (d_sqrt T)))) K)
                  (d_exp (d_mul (d_neg r) T)))"
  by (simp add: calculate_call_price_def call_d1_def Let_def)

lemma call_d1_infinite_d2:
  "call_d1 S K T \<sigma> r = PInf \<Longrightarrow> d_sub (call_d1 S K T \<sigma> r) (d_mul \<sigma> (d_sqrt T)) = PInf"
  "call_d1 S K T \<sigma> r = NInf \<Longrightarrow> d_sub (call_d1 S K T \<sigma> r) (d_mul \<sigma> (d_sqrt T)) = NInf"
proof -
  show "d_sub (call_d1 S K T \<sigma> r) (d_mul \<sigma> (d_sqrt T)) = PInf" if h: "call_d1 S K T \<sigma> r = PInf"
    unfolding h
    using d_div_infinite [OF disjI1 [OF h [unfolded call_d1_def]]]
    by (simp add: d_sub_from_infinity)
  show "d_sub (call_d1 S K T \<sigma> r) (d_mul \<sigma> (d_sqrt T)) = NInf" if h: "call_d1 S K T \<sigma> r = NInf"
    unfolding h
    using d_div_infinite [OF disjI2 [OF h [unfolded call_d1_def]]]
    by (simp add: d_sub_from_infinity)
qed

lemma call_price_d1_NaN:
  assumes "call_d1 S K T \<sigma> r = NaN"
  shows "calculate_call_price S K T \<sigma> r = NaN" "calculate_put_price S K T \<sigma> r = NaN"
proof -
  show c: "calculate_call_price S K T \<sigma> r = NaN"
    unfolding call_price_d1 assms by (simp add: cdf_special)
  show "calculate_put_price S K T \<sigma> r = NaN"
    unfolding calculate_put_price_def c by (simp add: d_sub_def)
qed

lemma call_price_d1_PInf:
  assumes "call_d1 S K T \<sigma> r = PInf"
  shows "calculate_call_price S K T \<sigma> r = d_sub S (d_mul K (d_exp (d_mul (d_neg r) T)))"
  unfolding call_price_d1 call_d1_infinite_d2(1) [OF assms] unfolding assms
  by (simp add: cdf_special d_mul_one)

lemma call_price_d1_NInf:
  assumes "call_d1 S K T \<sigma> r = NInf"
  shows "calculate_call_price S K T \<sigma> r =
           d_sub (d_mul (Fin 0) S) (d_mul (d_mul (Fin 0) K) (d_exp (d_mul (d_neg r) T)))"
  unfolding call_price_d1 call_d1_infinite_d2(2) [OF assms] unfolding assms
  by (simp add: cdf_special)

section \<open>Put-call parity\<close>

lemma parity_gap:
  assumes "is_finite a" "e \<noteq> 0"
  shows "d_sub (d_add a (Fin 0)) (Fin s) \<noteq> d_sub (d_add a (Fin e)) (Fin s)"
  using assms by (cases a) (auto simp: d_sub_def)

text \<open>
  C1, as stated: the put price is the call price plus \<open>K * exp (- r * T)\<close> minus \<open>S\<close>,
  bit for bit. The code adds \<open>K / exp (r * T)\<close> instead, and the two are different
  doubles. At \<open>S = 2 ^ - 1000\<close>, \<open>K = 100\<close>, \<open>T = 1\<close>, \<open>\<sigma> = 0.2\<close>, \<open>r = 720\<close> the library's
  \<open>exp (r * T)\<close> is \<open>+\<infinity>\<close>, so the code adds \<open>100 / \<infinity> = 0\<close>, while \<open>exp (- r * T)\<close> is
  a positive number and \<open>100 * exp (- r * T)\<close> is not zero; the call price is finite, and
  the put price differs from the claimed sum.
\<close>

theorem put_call_parity_counterexample:
  "d_div (Fin 100) (d_exp (d_mul (Fin 720) (Fin 1))) = Fin 0 \<and>
   \<not> is_zero (d_mul (Fin 100) (d_exp (d_mul (d_neg (Fin 720)) (Fin 1)))) \<and>
   calculate_put_price (Fin (1 / 2 ^ 1000)) (Fin 100) (Fin 1) (Fin (1 / 5)) (Fin 720) \<noteq>
     d_sub (d_add (calculate_call_price (Fin (1 / 2 ^ 1000)) (Fin 100) (Fin 1) (Fin (1 / 5))
                     (Fin 720))
                  (d_mul (Fin 100) (d_exp (d_mul (d_neg (Fin 720)) (Fin 1)))))
           (Fin (1 / 2 ^ 1000))"
proof -
  have up: "d_exp (d_mul (Fin 720) (Fin 1)) = PInf"
    by (simp add: d_mul_by_one d_exp_720)
  have code: "d_div (Fin 100) (d_exp (d_mul (Fin 720) (Fin 1))) = Fin 0"
    unfolding up by (simp add: d_div_def zero_of_def)
  have "d_mul (d_neg (Fin 720)) (Fin 1) = Fin (- 720)"
    by (simp add: d_mul_by_one)
  then have down: "d_exp (d_mul (d_neg (Fin 720)) (Fin 1)) = Fin (exp (- 720))"
    by (simp add: d_exp_minus_720)
  have claimed: "d_mul (Fin 100) (d_exp (d_mul (d_neg (Fin 720)) (Fin 1))) =
      Fin (100 * exp (- 720))"
    unfolding down by (simp add: d_mul_Fin_pos)
  have quot: "d_div (Fin (1 / 2 ^ 1000)) (Fin 100) = Fin (1 / 2 ^ 1000 / 100)"
    by (simp add: d_div_Fin_pos)
  have "\<not> (1 / 2 ^ 1000 / 100 :: real) < 0" "(1 / 2 ^ 1000 / 100 :: real) \<noteq> 0"
    by simp_all
  then have lg: "d_log (d_div (Fin (1 / 2 ^ 1000)) (Fin 100)) = Fin (ln (1 / 2 ^ 1000 / 100))"
    unfolding quot by simp
  have drift: "d_mul (d_add (Fin 720) (d_div (d_pow_2 (Fin (1 / 5))) (Fin 2))) (Fin 1) =
      Fin (720 + 1 / 50)"
    by (simp add: d_mul_by_one d_div_Fin_pos d_pow_2_fifth)
  have den: "d_mul (Fin (1 / 5)) (d_sqrt (Fin 1)) = Fin (1 / 5)"
    by (simp add: d_mul_Fin_pos)
  have d1: "call_d1 (Fin (1 / 2 ^ 1000)) (Fin 100) (Fin 1) (Fin (1 / 5)) (Fin 720) =
      Fin ((ln (1 / 2 ^ 1000 / 100) + (720 + 1 / 50)) / (1 / 5))"
    unfolding call_d1_def lg drift den by (simp add: d_div_Fin_pos)
  have fin: "is_finite (calculate_call_price (Fin (1 / 2 ^ 1000)) (Fin 100) (Fin 1)
                          (Fin (1 / 5)) (Fin 720))"
    unfolding call_price_d1 d1 den down
    by (intro is_finite_d_sub is_finite_d_mul) (simp_all add: cdf_Fin d_sub_def)
  have "calculate_put_price (Fin (1 / 2 ^ 1000)) (Fin 100) (Fin 1) (Fin (1 / 5)) (Fin 720) \<noteq>
     d_sub (d_add (calculate_call_price (Fin (1 / 2 ^ 1000)) (Fin 100) (Fin 1) (Fin (1 / 5))
                     (Fin 720))
                  (d_mul (Fin 100) (d_exp (d_mul (d_neg (Fin 720)) (Fin 1)))))
           (Fin (1 / 2 ^ 1000))"
    unfolding calculate_put_price_def code claimed
    by (rule parity_gap [OF fin]) simp
  moreover have "\<not> is_zero (d_mul (Fin 100) (d_exp (d_mul (d_neg (Fin 720)) (Fin 1))))"
    unfolding claimed by simp
  ultimately show ?thesis
    using code by blast
qed

text \<open>
  C1, amended. For every input the put price is the call price plus \<open>K / exp (r * T)\<close>
  minus \<open>S\<close>, computed on doubles in this order. When the product \<open>r * T\<close> is a zero,
  this is the call price plus \<open>K * exp (- r * T)\<close> minus \<open>S\<close>.
\<close>

theorem put_price_formula:
  "calculate_put_price S K T \<sigma> r =
     d_sub (d_add (calculate_call_price S K T \<sigma> r) (d_div K (d_exp (d_mul r T)))) S \<and>
   (is_zero (d_mul r T) \<longrightarrow>
      calculate_put_price S K T \<sigma> r =
        d_sub (d_add (calculate_call_price S K T \<sigma> r)
                     (d_mul K (d_exp (d_mul (d_neg r) T))))
              S)"
proof (intro conjI impI)
  show "calculate_put_price S K T \<sigma> r =
      d_sub (d_add (calculate_call_price S K T \<sigma> r) (d_div K (d_exp (d_mul r T)))) S"
    by (simp add: calculate_put_price_def)
next
  assume z: "is_zero (d_mul r T)"
  then have "is_zero (d_mul (d_neg r) T)"
    by (simp add: d_mul_d_neg is_zero_d_neg)
  then have "d_mul K (d_exp (d_mul (d_neg r) T)) = d_div K (d_exp (d_mul r T))"
    using z by (simp add: d_exp_zero d_mul_by_one d_div_by_one)
  then show "calculate_put_price S K T \<sigma> r =
      d_sub (d_add (calculate_call_price S K T \<sigma> r) (d_mul K (d_exp (d_mul (d_neg r) T)))) S"
    by (simp add: calculate_put_price_def)
qed

theorem put_price_formula_witness:
  "is_zero (d_mul (Fin 0) (Fin 1)) \<and>
   calculate_put_price (Fin 100) (Fin 100) (Fin 1) (Fin (1 / 5)) (Fin 0) =
     d_sub (d_add (calculate_call_price (Fin 100) (Fin 100) (Fin 1) (Fin (1 / 5)) (Fin 0))
                  (d_mul (Fin 100) (d_exp (d_mul (d_neg (Fin 0)) (Fin 1)))))
           (Fin 100)"
proof -
  have z: "is_zero (d_mul (Fin 0) (Fin 1))"
    by (simp add: d_mul_by_one)
  from put_price_formula [of "Fin 100" "Fin 100" "Fin 1" "Fin (1 / 5)" "Fin 0", THEN conjunct2]
  show ?thesis
    using z by blast
qed

section \<open>The call price\<close>


section \<open>The normal distribution function\<close>



text \<open>
  C7. For every finite \<open>x\<close> the values of \<open>cdf_normal_distribution\<close> at \<open>x\<close> and at \<open>- x\<close>
  add up to 1, and its value at 0 is one half.
\<close>

theorem cdf_symmetry:
  "(is_finite v \<longrightarrow>
      d_add (cdf_normal_distribution v) (cdf_normal_distribution (d_neg v)) = Fin 1) \<and>
   cdf_normal_distribution (Fin 0) = Fin (1 / 2)"
proof (intro conjI impI)
  assume v: "is_finite v"
  then have "is_finite (d_neg v)" by (rule is_finite_d_neg)
  then show "d_add (cdf_normal_distribution v) (cdf_normal_distribution (d_neg v)) = Fin 1"
    using v by (simp add: cdf_finite real_of_d_neg field_simps)
next
  show "cdf_normal_distribution (Fin 0) = Fin (1 / 2)"
    by (simp add: cdf_Fin)
qed

theorem cdf_symmetry_witness:
  "is_finite (Fin 1) \<and>
   d_add (cdf_normal_distribution (Fin 1)) (cdf_normal_distribution (Fin (- 1))) = Fin 1"
  using cdf_symmetry [of "Fin 1"] by simp

section \<open>The command line\<close>

text \<open>
  C4. With five arguments \<open>main\<close> divides the days by 365 and the volatility and the
  rate by 100, once each, and prices the call and the put at the converted values.
  Arguments that parse as 365 days, 20 percent and 5 percent reach both pricing
  functions as \<open>T = 1\<close>, \<open>\<sigma> = 0.2\<close> and \<open>r = 0.05\<close>.
\<close>

theorem main_converts_units_once:
  assumes "length argv = 6"
  shows "main strtod argv =
    (0, \<lparr>events =
           [Cout (Text ''Options pricing calculator based on the Black-Scholes Model.''), Cout Endl,
            Cout Endl,
            Cout (Text ''Stock Price: $''), Cout (Num 6 False (strtod (argv ! 1))), Cout Endl,
            Cout (Text ''Strike Price: $''), Cout (Num 6 False (strtod (argv ! 2))), Cout Endl,
            Cout (Text ''Days to Expiration: ''), Cout (Num 6 False (strtod (argv ! 3))),
            Cout (Text '' days''), Cout Endl,
            Cout (Text ''Volatility: ''), Cout (Num 6 False (strtod (argv ! 4))),
            Cout (Text ''%''), Cout Endl,
            Cout (Text ''Risk-Free Rate of Interest: ''), Cout (Num 6 False (strtod (argv ! 5))),
            Cout (Text ''%''), Cout Endl,
            Cout Endl,
            Cout (Text ''Call Option Value: $''),
            Cout (Num 2 True (calculate_call_price (strtod (argv ! 1)) (strtod (argv ! 2))
                    (d_div (strtod (argv ! 3)) (Fin 365))
                    (d_div (strtod (argv ! 4)) (Fin 100))
                    (d_div (strtod (argv ! 5)) (Fin 100)))),
            Cout Endl,
            Cout (Text ''Put Option Value: $''),
            Cout (Num 2 True (calculate_put_price (strtod (argv ! 1)) (strtod (argv ! 2))
                    (d_div (strtod (argv ! 3)) (Fin 365))
                    (d_div (strtod (argv ! 4)) (Fin 100))
                    (d_div (strtod (argv ! 5)) (Fin 100)))),
            Cout Endl],
          cout_precision = 2, cout_fixed = True\<rparr>) \<and>
    (strtod (argv ! 3) = Fin 365 \<and> strtod (argv ! 4) = Fin 20 \<and> strtod (argv ! 5) = Fin 5 \<longrightarrow>
     drop 22 (events (snd (main strtod argv))) =
       [Cout (Text ''Call Option Value: $''),
        Cout (Num 2 True (calculate_call_price (strtod (argv ! 1)) (strtod (argv ! 2))
                (Fin 1) (Fin (1 / 5)) (Fin (1 / 20)))),
        Cout Endl,
        Cout (Text ''Put Option Value: $''),
        Cout (Num 2 True (calculate_put_price (strtod (argv ! 1)) (strtod (argv ! 2))
                (Fin 1) (Fin (1 / 5)) (Fin (1 / 20)))),
        Cout Endl])"
  using assms by (simp add: main_def io_defs Let_def d_div_Fin_pos)

theorem main_converts_units_once_witness:
  "length [''black_scholes'', ''100'', ''100'', ''365'', ''20'', ''5''] = 6 \<and>
   strtod_digits ''365'' = Fin 365 \<and> strtod_digits ''20'' = Fin 20 \<and>
   strtod_digits ''5'' = Fin 5 \<and>
   drop 22 (events (snd (main strtod_digits
       [''black_scholes'', ''100'', ''100'', ''365'', ''20'', ''5'']))) =
     [Cout (Text ''Call Option Value: $''),
      Cout (Num 2 True (calculate_call_price (Fin 100) (Fin 100) (Fin 1) (Fin (1 / 5)) (Fin (1 / 20)))),
      Cout Endl,
      Cout (Text ''Put Option Value: $''),
      Cout (Num 2 True (calculate_put_price (Fin 100) (Fin 100) (Fin 1) (Fin (1 / 5)) (Fin (1 / 20)))),
      Cout Endl]"
proof -
  have len: "length [''black_scholes'', ''100'', ''100'', ''365'', ''20'', ''5''] = 6"
    by simp
  have args: "strtod_digits ''100'' = Fin 100" "strtod_digits ''365'' = Fin 365"
    "strtod_digits ''20'' = Fin 20" "strtod_digits ''5'' = Fin 5"
    by (simp_all add: strtod_digits_def is_digit_def)
  from main_converts_units_once [OF len, of strtod_digits, THEN conjunct2]
  show ?thesis
    by (simp add: args)
qed

text \<open>
  C5. When the number of arguments is not five (\<^verbatim>\<open>argc\<close> is not 6), \<open>main\<close> writes the
  usage message to the error stream and exits with status 1. Nothing but the banner
  has reached the output stream: no input is echoed and no option value is printed.
\<close>

theorem main_usage_error:
  assumes "length argv \<noteq> 6"
  shows "main strtod argv =
    (1, \<lparr>events =
           [Cout (Text ''Options pricing calculator based on the Black-Scholes Model.''),
            Cout Endl,
            Cerr (Text ''Error: Input [Stock Price ($)] [Strike Price ($)] [Days to Expiration (days)] [Volatility (%)] [Risk-Free Rate of Interest (%)]''),
            Cerr Endl],
          cout_precision = 6, cout_fixed = False\<rparr>)"
  using assms by (simp add: main_def io_defs)

theorem main_usage_error_witness:
  "length [''black_scholes'', ''100'', ''100'', ''365'', ''20''] \<noteq> 6 \<and>
   main strtod_digits [''black_scholes'', ''100'', ''100'', ''365'', ''20''] =
    (1, \<lparr>events =
           [Cout (Text ''Options pricing calculator based on the Black-Scholes Model.''),
            Cout Endl,
            Cerr (Text ''Error: Input [Stock Price ($)] [Strike Price ($)] [Days to Expiration (days)] [Volatility (%)] [Risk-Free Rate of Interest (%)]''),
            Cerr Endl],
          cout_precision = 6, cout_fixed = False\<rparr>)"
  using main_usage_error [of "[''black_scholes'', ''100'', ''100'', ''365'', ''20'']" strtod_digits]
  by simp

text \<open>
  C10. Every run starts by writing the banner line to the output stream, whatever the
  arguments are; in a run with a wrong number of arguments the usage message on the
  error stream comes after it.
\<close>

theorem main_banner_first:
  "take 2 (events (snd (main strtod argv))) =
     [Cout (Text ''Options pricing calculator based on the Black-Scholes Model.''), Cout Endl] \<and>
   (length argv \<noteq> 6 \<longrightarrow>
    drop 2 (events (snd (main strtod argv))) =
      [Cerr (Text ''Error: Input [Stock Price ($)] [Strike Price ($)] [Days to Expiration (days)] [Volatility (%)] [Risk-Free Rate of Interest (%)]''),
       Cerr Endl])"
  by (simp add: main_def io_defs Let_def)

theorem main_banner_first_witness:
  "length [''black_scholes''] \<noteq> 6 \<and>
   take 2 (events (snd (main strtod_digits [''black_scholes'']))) =
     [Cout (Text ''Options pricing calculator based on the Black-Scholes Model.''), Cout Endl] \<and>
   drop 2 (events (snd (main strtod_digits [''black_scholes'']))) =
      [Cerr (Text ''Error: Input [Stock Price ($)] [Strike Price ($)] [Days to Expiration (days)] [Volatility (%)] [Risk-Free Rate of Interest (%)]''),
       Cerr Endl]"
  using main_banner_first [of strtod_digits "[''black_scholes'']"]
  by simp

section \<open>Inputs outside the domain of the formula\<close>

text \<open>
  C6, as stated: when \<open>T = 0\<close> or \<open>\<sigma> = 0\<close> the infinity or NaN of the division in \<open>d1\<close>
  reaches the returned value. It does not at \<open>S = 110\<close>, \<open>K = 100\<close>, \<open>T = 0\<close>,
  \<open>\<sigma> = 0.2\<close>, \<open>r = 0.05\<close>: \<open>d1\<close> is \<open>ln 1.1 / 0 = +\<infinity>\<close>, the distribution function maps
  it to 1, and the call price is 10 and the put price 0.
\<close>

theorem zero_time_or_volatility_counterexample:
  "calculate_call_price (Fin 110) (Fin 100) (Fin 0) (Fin (1 / 5)) (Fin (1 / 20)) = Fin 10 \<and>
   calculate_put_price (Fin 110) (Fin 100) (Fin 0) (Fin (1 / 5)) (Fin (1 / 20)) = Fin 0"
proof -
  have d1: "call_d1 (Fin 110) (Fin 100) (Fin 0) (Fin (1 / 5)) (Fin (1 / 20)) = PInf"
    by (simp add: call_d1_def d_mul_def d_div_def zero_of_def inf_of_def d_pow_2_fifth)
  have discount: "d_exp (d_mul (d_neg (Fin (1 / 20))) (Fin 0)) = Fin 1"
    by (rule d_exp_zero) (simp add: d_mul_def zero_of_def)
  have call: "calculate_call_price (Fin 110) (Fin 100) (Fin 0) (Fin (1 / 5)) (Fin (1 / 20)) =
      Fin 10"
    unfolding call_price_d1_PInf [OF d1] discount
    by (simp add: d_mul_by_one d_sub_def)
  have "d_exp (d_mul (Fin (1 / 20)) (Fin 0)) = Fin 1"
    by (rule d_exp_zero) (simp add: d_mul_def zero_of_def)
  then have "calculate_put_price (Fin 110) (Fin 100) (Fin 0) (Fin (1 / 5)) (Fin (1 / 20)) =
      Fin 0"
    unfolding calculate_put_price_def call
    by (simp add: d_div_by_one d_sub_def)
  with call show ?thesis ..
qed

text \<open>
  C6, amended. When \<open>T\<close> or \<open>\<sigma>\<close> is a zero, neither function checks, clamps or rejects
  its input: the division by \<open>\<sigma> * \<surd>T\<close> in \<open>d1\<close> is carried out, its result is an
  infinity or a NaN, never a finite number, and no error is raised. A NaN reaches the
  value that both functions return. An infinity does not: the distribution function
  maps it to 1 or to 0, and the call price is \<open>S - K * exp (- r * T)\<close> for \<open>+\<infinity>\<close> and
  \<open>0 * S - 0 * K * exp (- r * T)\<close> for \<open>-\<infinity>\<close>, computed on doubles.
\<close>

theorem zero_time_or_volatility:
  assumes "is_zero T \<or> is_zero \<sigma>"
  shows "let d1 = call_d1 S K T \<sigma> r;
             discount = d_exp (d_mul (d_neg r) T);
             call = calculate_call_price S K T \<sigma> r;
             put = calculate_put_price S K T \<sigma> r
         in \<not> is_finite d1 \<and>
            (d1 = NaN \<longrightarrow> call = NaN \<and> put = NaN) \<and>
            (d1 = PInf \<longrightarrow> call = d_sub S (d_mul K discount)) \<and>
            (d1 = NInf \<longrightarrow> call = d_sub (d_mul (Fin 0) S) (d_mul (d_mul (Fin 0) K) discount))"
proof -
  have "is_zero (d_mul \<sigma> (d_sqrt T)) \<or> d_mul \<sigma> (d_sqrt T) = NaN"
    using assms by (cases T; cases \<sigma>) (auto simp: d_mul_def zero_of_def)
  then have "\<not> is_finite (call_d1 S K T \<sigma> r)"
    unfolding call_d1_def by (rule d_div_zero_divisor)
  then show ?thesis
    unfolding Let_def
    using call_price_d1_NaN [of S K T \<sigma> r] call_price_d1_PInf [of S K T \<sigma> r]
          call_price_d1_NInf [of S K T \<sigma> r]
    by blast
qed

theorem zero_time_or_volatility_witness:
  "(is_zero (Fin 0) \<or> is_zero (Fin (1 / 5))) \<and>
   call_d1 (Fin 110) (Fin 100) (Fin 0) (Fin (1 / 5)) (Fin (1 / 20)) = PInf \<and>
   calculate_call_price (Fin 110) (Fin 100) (Fin 0) (Fin (1 / 5)) (Fin (1 / 20)) =
     d_sub (Fin 110) (d_mul (Fin 100) (d_exp (d_mul (d_neg (Fin (1 / 20))) (Fin 0)))) \<and>
   call_d1 (Fin 100) (Fin 100) (Fin 0) (Fin (1 / 5)) (Fin (1 / 20)) = NaN \<and>
   calculate_call_price (Fin 100) (Fin 100) (Fin 0) (Fin (1 / 5)) (Fin (1 / 20)) = NaN \<and>
   calculate_put_price (Fin 100) (Fin 100) (Fin 0) (Fin (1 / 5)) (Fin (1 / 20)) = NaN \<and>
   call_d1 (Fin 90) (Fin 100) (Fin 0) (Fin (1 / 5)) (Fin (1 / 20)) = NInf \<and>
   calculate_call_price (Fin 90) (Fin 100) (Fin 0) (Fin (1 / 5)) (Fin (1 / 20)) =
     d_sub (d_mul (Fin 0) (Fin 90))
           (d_mul (d_mul (Fin 0) (Fin 100)) (d_exp (d_mul (d_neg (Fin (1 / 20))) (Fin 0))))"
proof -
  have t: "is_zero (Fin 0) \<or> is_zero (Fin (1 / 5))"
    by simp
  have a: "call_d1 (Fin 110) (Fin 100) (Fin 0) (Fin (1 / 5)) (Fin (1 / 20)) = PInf"
    by (simp add: call_d1_def d_mul_def d_div_def zero_of_def inf_of_def d_pow_2_fifth)
  have b: "call_d1 (Fin 100) (Fin 100) (Fin 0) (Fin (1 / 5)) (Fin (1 / 20)) = NaN"
    by (simp add: call_d1_def d_mul_def d_div_def zero_of_def inf_of_def d_pow_2_fifth)
  have c: "call_d1 (Fin 90) (Fin 100) (Fin 0) (Fin (1 / 5)) (Fin (1 / 20)) = NInf"
    by (simp add: call_d1_def d_mul_def d_div_def zero_of_def inf_of_def d_pow_2_fifth)
  from zero_time_or_volatility [OF t, of "Fin 110" "Fin 100" "Fin (1 / 20)"]
       zero_time_or_volatility [OF t, of "Fin 100" "Fin 100" "Fin (1 / 20)"]
       zero_time_or_volatility [OF t, of "Fin 90" "Fin 100" "Fin (1 / 20)"]
  show ?thesis
    unfolding Let_def using t a b c by simp
qed

text \<open>
  C9, as stated: when \<open>S \<le> 0\<close> or \<open>K \<le> 0\<close> (and \<open>T > 0\<close>, \<open>\<sigma> > 0\<close>) the argument of the
  logarithm is not positive and a NaN or an infinity reaches the returned value. At
  \<open>S = 0\<close>, \<open>K = 100\<close>, \<open>T = 1\<close>, \<open>\<sigma> = 0.2\<close>, \<open>r = 0.05\<close> the logarithm is \<open>-\<infinity>\<close>, but the
  call price is 0 and the put price is the finite quotient \<open>100 / exp 0.05\<close>. At
  \<open>S = K = - 100\<close> the argument of the logarithm is 1 and the call price is finite.
\<close>

theorem nonpositive_price_counterexample:
  "calculate_call_price (Fin 0) (Fin 100) (Fin 1) (Fin (1 / 5)) (Fin (1 / 20)) = Fin 0 \<and>
   calculate_put_price (Fin 0) (Fin 100) (Fin 1) (Fin (1 / 5)) (Fin (1 / 20)) =
     d_div (Fin 100) (d_exp (Fin (1 / 20))) \<and>
   is_finite (d_div (Fin 100) (d_exp (Fin (1 / 20)))) \<and>
   d_div (Fin (- 100)) (Fin (- 100)) = Fin 1 \<and>
   is_finite (calculate_call_price (Fin (- 100)) (Fin (- 100)) (Fin 1) (Fin (1 / 5)) (Fin (1 / 20)))"
proof -
  have up: "d_exp (Fin (1 / 20)) = Fin (exp (1 / 20))"
    by (rule d_exp_unit) simp
  have down: "d_exp (d_mul (d_neg (Fin (1 / 20))) (Fin 1)) = Fin (exp (- (1 / 20)))"
    unfolding d_mul_by_one by (simp add: d_exp_unit)
  have d1: "call_d1 (Fin 0) (Fin 100) (Fin 1) (Fin (1 / 5)) (Fin (1 / 20)) = NInf"
    by (simp add: call_d1_def d_mul_def d_div_def zero_of_def inf_of_def d_pow_2_fifth)
  have call: "calculate_call_price (Fin 0) (Fin 100) (Fin 1) (Fin (1 / 5)) (Fin (1 / 20)) = Fin 0"
    unfolding call_price_d1_NInf [OF d1] down
    by (simp add: d_mul_def d_sub_def zero_of_def)
  have put: "calculate_put_price (Fin 0) (Fin 100) (Fin 1) (Fin (1 / 5)) (Fin (1 / 20)) =
      d_div (Fin 100) (d_exp (Fin (1 / 20)))"
    unfolding calculate_put_price_def call d_mul_by_one up
    by (simp add: d_div_def d_sub_def zero_of_def)
  have finput: "is_finite (d_div (Fin 100) (d_exp (Fin (1 / 20))))"
    unfolding up by (simp add: d_div_def)
  have quot: "d_div (Fin (- 100)) (Fin (- 100)) = Fin 1"
    by (simp add: d_div_def)
  have "call_d1 (Fin (- 100)) (Fin (- 100)) (Fin 1) (Fin (1 / 5)) (Fin (1 / 20)) = Fin (7 / 20)"
    unfolding call_d1_def quot by (simp add: d_mul_def d_div_def d_pow_2_fifth)
  then have fin: "is_finite (calculate_call_price (Fin (- 100)) (Fin (- 100)) (Fin 1)
                          (Fin (1 / 5)) (Fin (1 / 20)))"
    unfolding call_price_d1 down
    by (intro is_finite_d_sub is_finite_d_mul) (simp_all add: cdf_Fin d_sub_def d_mul_def)
  show ?thesis using call put finput quot fin by blast
qed

text \<open>
  C9, amended. Neither function checks the sign of \<open>S\<close> or \<open>K\<close>, and no error is raised.
  If the quotient \<open>S / K\<close> is negative, its logarithm is NaN, and a NaN logarithm
  reaches the value that both functions return. If \<open>S\<close> is zero and \<open>K\<close> is not, the
  quotient is a zero and its logarithm is \<open>-\<infinity>\<close>; an infinite \<open>d1\<close> does not reach the
  returned value, since the distribution function maps it to 0 or to 1: the call
  price is \<open>0 * S - 0 * K * exp (- r * T)\<close> for \<open>-\<infinity>\<close> and \<open>S - K * exp (- r * T)\<close> for \<open>+\<infinity>\<close>,
  computed on doubles. If \<open>S\<close> and \<open>K\<close> are both negative, the quotient is not
  negative and its logarithm is not NaN.
\<close>

theorem nonpositive_price:
  "(let q = d_div S K;
        d1 = call_d1 S K T \<sigma> r;
        discount = d_exp (d_mul (d_neg r) T);
        call = calculate_call_price S K T \<sigma> r;
        put = calculate_put_price S K T \<sigma> r
    in (q \<noteq> NaN \<and> signbit q \<and> \<not> is_zero q \<longrightarrow> d_log q = NaN) \<and>
       (d_log q = NaN \<longrightarrow> call = NaN \<and> put = NaN) \<and>
       (is_zero q \<longrightarrow> d_log q = NInf) \<and>
       (d1 = NInf \<longrightarrow> call = d_sub (d_mul (Fin 0) S) (d_mul (d_mul (Fin 0) K) discount)) \<and>
       (d1 = PInf \<longrightarrow> call = d_sub S (d_mul K discount))) \<and>
   (s = 0 \<and> k \<noteq> 0 \<longrightarrow> is_zero (d_div (Fin s) (Fin k))) \<and>
   (s < 0 \<and> k < 0 \<longrightarrow>
      \<not> signbit (d_div (Fin s) (Fin k)) \<and> d_log (d_div (Fin s) (Fin k)) \<noteq> NaN)"
proof -
  have neg: "d_log q = NaN" if "q \<noteq> NaN" "signbit q" "\<not> is_zero q" for q
    using that by (cases q) auto
  have zero: "d_log q = NInf" if "is_zero q" for q
    using that by (cases q) auto
  have nan: "calculate_call_price S K T \<sigma> r = NaN \<and> calculate_put_price S K T \<sigma> r = NaN"
    if "d_log (d_div S K) = NaN"
  proof -
    have "call_d1 S K T \<sigma> r = NaN"
      unfolding call_d1_def that by simp
    then show ?thesis
      by (simp add: call_price_d1_NaN)
  qed
  have z: "is_zero (d_div (Fin s) (Fin k))" if "s = 0" "k \<noteq> 0"
    using that by (simp add: d_div_def zero_of_def)
  have both: "\<not> signbit (d_div (Fin s) (Fin k)) \<and> d_log (d_div (Fin s) (Fin k)) \<noteq> NaN"
    if "s < 0" "k < 0"
  proof -
    have "0 < s / k"
      using that by (simp add: zero_less_divide_iff)
    moreover have "d_div (Fin s) (Fin k) = Fin (s / k)"
      using that by (simp add: d_div_def)
    ultimately show ?thesis
      by simp
  qed
  show ?thesis
    unfolding Let_def
    using neg [of "d_div S K"] zero [of "d_div S K"] nan z both
          call_price_d1_PInf [of S K T \<sigma> r] call_price_d1_NInf [of S K T \<sigma> r]
    by blast
qed

theorem nonpositive_price_witness:
  "d_div (Fin (- 100)) (Fin 100) \<noteq> NaN \<and> signbit (d_div (Fin (- 100)) (Fin 100)) \<and>
   \<not> is_zero (d_div (Fin (- 100)) (Fin 100)) \<and>
   d_log (d_div (Fin (- 100)) (Fin 100)) = NaN \<and>
   calculate_call_price (Fin (- 100)) (Fin 100) (Fin 1) (Fin (1 / 5)) (Fin (1 / 20)) = NaN \<and>
   calculate_put_price (Fin (- 100)) (Fin 100) (Fin 1) (Fin (1 / 5)) (Fin (1 / 20)) = NaN \<and>
   (0 :: real) = 0 \<and> (100 :: real) \<noteq> 0 \<and>
   is_zero (d_div (Fin 0) (Fin 100)) \<and> d_log (d_div (Fin 0) (Fin 100)) = NInf \<and>
   call_d1 (Fin 0) (Fin 100) (Fin 1) (Fin (1 / 5)) (Fin (1 / 20)) = NInf \<and>
   calculate_call_price (Fin 0) (Fin 100) (Fin 1) (Fin (1 / 5)) (Fin (1 / 20)) =
     d_sub (d_mul (Fin 0) (Fin 0))
           (d_mul (d_mul (Fin 0) (Fin 100)) (d_exp (d_mul (d_neg (Fin (1 / 20))) (Fin 1)))) \<and>
   call_d1 (Fin 100) (Fin 0) (Fin 1) (Fin (1 / 5)) (Fin (1 / 20)) = PInf \<and>
   calculate_call_price (Fin 100) (Fin 0) (Fin 1) (Fin (1 / 5)) (Fin (1 / 20)) =
     d_sub (Fin 100) (d_mul (Fin 0) (d_exp (d_mul (d_neg (Fin (1 / 20))) (Fin 1)))) \<and>
   (- 100 :: real) < 0 \<and>
   \<not> signbit (d_div (Fin (- 100)) (Fin (- 100))) \<and>
   d_log (d_div (Fin (- 100)) (Fin (- 100))) \<noteq> NaN"
proof -
  have q: "d_div (Fin (- 100)) (Fin 100) = Fin (- 1)"
    by (simp add: d_div_def)
  have a: "call_d1 (Fin 0) (Fin 100) (Fin 1) (Fin (1 / 5)) (Fin (1 / 20)) = NInf"
    by (simp add: call_d1_def d_mul_def d_div_def zero_of_def inf_of_def d_pow_2_fifth)
  have b: "call_d1 (Fin 100) (Fin 0) (Fin 1) (Fin (1 / 5)) (Fin (1 / 20)) = PInf"
    by (simp add: call_d1_def d_mul_def d_div_def zero_of_def inf_of_def d_pow_2_fifth)
  from nonpositive_price [of "Fin (- 100)" "Fin 100" "Fin 1" "Fin (1 / 5)" "Fin (1 / 20)" 0 100]
       nonpositive_price [of "Fin 0" "Fin 100" "Fin 1" "Fin (1 / 5)" "Fin (1 / 20)" "- 100" "- 100"]
       nonpositive_price [of "Fin 100" "Fin 0" "Fin 1" "Fin (1 / 5)" "Fin (1 / 20)" 0 100]
  show ?thesis
    unfolding Let_def q using a b by simp
qed

end
